theory Spec2Isabelle
  imports Complex_Main "HOL-Library.AList"
begin

section \<open>Conventions of the embedding\<close>

text \<open>
  The three modules \<^verbatim>\<open>credit_approval.py\<close>, \<^verbatim>\<open>credit_decision.py\<close> and
  \<^verbatim>\<open>credit_scorecard.py\<close> are embedded as state-passing functions.

  \<^item> A Python \<^verbatim>\<open>Decimal\<close> is a \<^typ>\<open>real\<close>: the values are taken as exact
    numbers, the 28-digit rounding of the decimal context is not modelled.
    \<^verbatim>\<open>quantize\<close> is modelled with its rounding mode (half to even).
  \<^item> A \<^verbatim>\<open>datetime\<close> is an \<^typ>\<open>int\<close>, the microseconds since some epoch;
    every reading of \<^verbatim>\<open>datetime.now()\<close> is an argument of the operation that
    reads the clock.
  \<^item> A dictionary is an association list in insertion order; assignment is
    \<^const>\<open>AList.update\<close>, lookup is \<^const>\<open>map_of\<close>.
  \<^item> A \<^verbatim>\<open>CollateralDeposit\<close> object is shared between the escrow vault, the
    loan and the list of deposits, and it is mutated through the loan: the
    objects live in a store indexed by references, and the three places hold
    the reference.
  \<^item> An exception is the left summand of the result; the state at the moment of
    the raise is returned beside it.
  \<^item> Logging is not modelled.
\<close>

type_synonym decimal = real
type_synonym datetime = int

definition timedelta_days :: "int \<Rightarrow> int" where
  "timedelta_days n = n * 86400000000"

definition days_of :: "int \<Rightarrow> int" where
  \<comment> \<open>\<^verbatim>\<open>timedelta.days\<close>: the whole days of a difference, rounded down\<close>
  "days_of delta = delta div 86400000000"

datatype py_error = AttributeError | KeyError | DivisionByZero

subsection \<open>Formatting a counter into an identifier\<close>

definition digit_char :: "nat \<Rightarrow> char" where
  "digit_char d = ''0123456789'' ! d"

fun str_nat :: "nat \<Rightarrow> string" where
  "str_nat n = (if n < 10 then [digit_char n] else str_nat (n div 10) @ [digit_char (n mod 10)])"

declare str_nat.simps [simp del]

subsection \<open>Rounding half to even\<close>

definition round_half_even :: "real \<Rightarrow> int" where
  \<comment> \<open>\<^verbatim>\<open>ROUND_HALF_EVEN\<close>, the rounding mode of the default decimal context\<close>
  "round_half_even x =
     (let f = \<lfloor>x\<rfloor>; d = x - real_of_int f
      in if d < 1 / 2 then f
         else if 1 / 2 < d then f + 1
         else if even f then f else f + 1)"

definition quantize :: "nat \<Rightarrow> decimal \<Rightarrow> decimal" where
  \<comment> \<open>\<^verbatim>\<open>x.quantize(q)\<close> for a \<open>q\<close> with \<open>k\<close> digits after the point\<close>
  "quantize k x = real_of_int (round_half_even (x * 10 ^ k)) / 10 ^ k"

section \<open>The loan ledger: \<^verbatim>\<open>credit_approval.py\<close>\<close>

datatype TransactionStatus =
  PENDING | IN_PROGRESS | COLLATERAL_LOCKED | FUNDS_DISBURSED | COMPLETED | FAILED | CANCELLED

datatype EscrowStatus = EMPTY | LOCKED | LIQUIDATION_IN_PROGRESS | RELEASED

record CollateralDeposit =
  deposit_id :: string
  cd_loan_id :: string
  cd_wallet_address :: string
  exen_amount :: decimal
  exen_price :: decimal
  collateral_value_usd :: decimal
  deposit_timestamp :: datetime
  cd_status :: EscrowStatus
  locked_until :: datetime
  health_factor :: decimal

record FundsTransfer =
  transfer_id :: string
  ft_loan_id :: string
  from_address :: string
  to_address :: string
  amount_usd :: decimal
  transfer_timestamp :: datetime
  ft_status :: TransactionStatus
  block_hash :: "string option"
  tx_hash :: "string option"

type_synonym deposit_ref = nat

record LoanAccount =
  loan_id :: string
  wallet_address :: string
  loan_amount_usd :: decimal
  interest_rate :: decimal
  collateral_amount_exen :: decimal
  collateral_price_usd :: decimal
  ltv_ratio :: decimal
  repayment_period_days :: int
  origination_timestamp :: datetime
  repayment_due_date :: datetime
  status :: TransactionStatus
  collateral_deposit :: "deposit_ref option"
  funds_transfer :: "FundsTransfer option"
  borrowed_amount_received :: decimal
  repaid_amount :: decimal
  accrued_interest :: decimal

record EscrowAccount =
  vault_id :: string
  location :: string
  total_collateral_locked :: decimal
  deposits :: "(string \<times> deposit_ref) list"
  ea_status :: EscrowStatus

record LoanFundsTransferSystem =
  loan_accounts :: "(string \<times> LoanAccount) list"
  escrow_vault :: EscrowAccount
  fund_transfers :: "FundsTransfer list"
  collateral_deposits :: "deposit_ref list"
  transaction_counter :: nat
  loan_counter :: nat
  lending_pool_balance :: decimal
  lending_pool_address :: string
  deposit_store :: "deposit_ref \<Rightarrow> CollateralDeposit"
  next_ref :: deposit_ref

definition blank_deposit :: CollateralDeposit where
  \<comment> \<open>the content of a store cell that no object occupies yet\<close>
  "blank_deposit = \<lparr>deposit_id = [], cd_loan_id = [], cd_wallet_address = [],
     exen_amount = 0, exen_price = 0, collateral_value_usd = 0, deposit_timestamp = 0,
     cd_status = EMPTY, locked_until = 0, health_factor = 0\<rparr>"

definition init_system :: LoanFundsTransferSystem where
  \<comment> \<open>\<^verbatim>\<open>LoanFundsTransferSystem.__init__\<close>\<close>
  "init_system = \<lparr>loan_accounts = [],
     escrow_vault = \<lparr>vault_id = ''EXEN_ESCROW_001'', location = ''escrow_vault'',
       total_collateral_locked = 0, deposits = [], ea_status = EMPTY\<rparr>,
     fund_transfers = [], collateral_deposits = [],
     transaction_counter = 0, loan_counter = 0,
     lending_pool_balance = 100000,
     lending_pool_address = ''EXEN_LENDING_POOL_ADDRESS'',
     deposit_store = (\<lambda>_. blank_deposit), next_ref = 0\<rparr>"

definition create_loan_account ::
  "string \<Rightarrow> decimal \<Rightarrow> decimal \<Rightarrow> decimal \<Rightarrow> decimal \<Rightarrow> decimal \<Rightarrow> int \<Rightarrow>
   datetime \<Rightarrow> datetime \<Rightarrow> LoanFundsTransferSystem \<Rightarrow> LoanAccount \<times> LoanFundsTransferSystem" where
  \<comment> \<open>\<open>now1\<close> is the clock read for the due date, \<open>now2\<close> the one for the origination\<close>
  "create_loan_account wallet amount rate coll_amount coll_price ltv repayment_days now1 now2 s =
     (let c = loan_counter s + 1;
          lid = ''LOAN_'' @ str_nat c;
          repayment_due = now1 + timedelta_days repayment_days;
          loan = \<lparr>loan_id = lid, wallet_address = wallet, loan_amount_usd = amount,
            interest_rate = rate, collateral_amount_exen = coll_amount,
            collateral_price_usd = coll_price, ltv_ratio = ltv,
            repayment_period_days = repayment_days, origination_timestamp = now2,
            repayment_due_date = repayment_due, status = PENDING,
            collateral_deposit = None, funds_transfer = None,
            borrowed_amount_received = 0, repaid_amount = 0, accrued_interest = 0\<rparr>
      in (loan, s\<lparr>loan_counter := c, loan_accounts := AList.update lid loan (loan_accounts s)\<rparr>))"

definition deposit_collateral ::
  "string \<Rightarrow> decimal \<Rightarrow> decimal \<Rightarrow> datetime \<Rightarrow> datetime \<Rightarrow> LoanFundsTransferSystem \<Rightarrow>
   deposit_ref option \<times> LoanFundsTransferSystem" where
  \<comment> \<open>\<open>now1\<close> is the clock read for \<open>locked_until\<close>, \<open>now2\<close> the one for the
      deposit's timestamp; the result is the reference of the new deposit\<close>
  "deposit_collateral lid amount current_price now1 now2 s =
     (case map_of (loan_accounts s) lid of
        None \<Rightarrow> (None, s)
      | Some loan \<Rightarrow>
          if amount \<noteq> collateral_amount_exen loan then (None, s)
          else
            let collateral_value = amount * current_price;
                did = ''DEPOSIT_'' @ str_nat (transaction_counter s);
                until = now1 + timedelta_days (repayment_period_days loan + 30);
                deposit = \<lparr>deposit_id = did, cd_loan_id = lid,
                  cd_wallet_address = wallet_address loan, exen_amount = amount,
                  exen_price = current_price, collateral_value_usd = collateral_value,
                  deposit_timestamp = now2, cd_status = LOCKED, locked_until = until,
                  health_factor = 3 / 2\<rparr>;
                r = next_ref s;
                vault = escrow_vault s;
                vault' = vault\<lparr>deposits := AList.update did r (deposits vault),
                  total_collateral_locked := total_collateral_locked vault + collateral_value,
                  ea_status := LOCKED\<rparr>;
                loan' = loan\<lparr>collateral_deposit := Some r, status := COLLATERAL_LOCKED\<rparr>
            in (Some r,
                s\<lparr>transaction_counter := transaction_counter s + 1,
                  deposit_store := (deposit_store s)(r := deposit),
                  next_ref := r + 1,
                  escrow_vault := vault',
                  loan_accounts := AList.update lid loan' (loan_accounts s),
                  collateral_deposits := collateral_deposits s @ [r]\<rparr>))"

definition verify_collateral_health ::
  "string \<Rightarrow> decimal \<Rightarrow> LoanFundsTransferSystem \<Rightarrow> py_error + bool \<times> decimal" where
  \<comment> \<open>a \<^verbatim>\<open>Decimal\<close> division by zero raises\<close>
  "verify_collateral_health lid current_exen_price s =
     (case map_of (loan_accounts s) lid of
        None \<Rightarrow> Inr (False, 0)
      | Some loan \<Rightarrow>
          (case collateral_deposit loan of
             None \<Rightarrow> Inr (False, 0)
           | Some r \<Rightarrow>
               let current_collateral_value = collateral_amount_exen loan * current_exen_price
               in if loan_amount_usd loan = 0 then Inl DivisionByZero
                  else
                    let hf = current_collateral_value / loan_amount_usd loan
                    in Inr (1 \<le> hf, hf)))"

definition generate_tx_hash :: "FundsTransfer \<Rightarrow> py_error + string" where
  \<comment> \<open>\<^verbatim>\<open>_generate_tx_hash\<close> reads \<^verbatim>\<open>transfer.timestamp\<close>; the dataclass
      \<^verbatim>\<open>FundsTransfer\<close> has the field \<^verbatim>\<open>transfer_timestamp\<close> and no attribute
      \<^verbatim>\<open>timestamp\<close>, so the read raises before anything is hashed\<close>
  "generate_tx_hash transfer = Inl AttributeError"

definition disburse_funds ::
  "string \<Rightarrow> datetime \<Rightarrow> LoanFundsTransferSystem \<Rightarrow>
   (py_error + FundsTransfer option) \<times> LoanFundsTransferSystem" where
  "disburse_funds lid now s =
     (case map_of (loan_accounts s) lid of
        None \<Rightarrow> (Inr None, s)
      | Some loan \<Rightarrow>
          if status loan \<noteq> COLLATERAL_LOCKED then (Inr None, s)
          else if lending_pool_balance s < loan_amount_usd loan then (Inr None, s)
          else
            let tid = ''TRANSFER_'' @ str_nat (transaction_counter s);
                s1 = s\<lparr>transaction_counter := transaction_counter s + 1\<rparr>;
                transfer = \<lparr>transfer_id = tid, ft_loan_id = lid,
                  from_address = lending_pool_address s1, to_address = wallet_address loan,
                  amount_usd = loan_amount_usd loan, transfer_timestamp = now,
                  ft_status = IN_PROGRESS, block_hash = None, tx_hash = None\<rparr>
            in (case generate_tx_hash transfer of
                  Inl e \<Rightarrow> (Inl e, s1)
                | Inr h \<Rightarrow>
                    let transfer' = transfer\<lparr>tx_hash := Some h, ft_status := FUNDS_DISBURSED\<rparr>;
                        loan' = loan\<lparr>borrowed_amount_received := loan_amount_usd loan,
                          funds_transfer := Some transfer', status := FUNDS_DISBURSED\<rparr>
                    in (Inr (Some transfer'),
                        s1\<lparr>lending_pool_balance := lending_pool_balance s1 - loan_amount_usd loan,
                          loan_accounts := AList.update lid loan' (loan_accounts s1),
                          fund_transfers := fund_transfers s1 @ [transfer']\<rparr>)))"

definition complete_loan_setup ::
  "string \<Rightarrow> decimal \<Rightarrow> decimal \<Rightarrow> datetime \<Rightarrow> datetime \<Rightarrow> datetime \<Rightarrow> LoanFundsTransferSystem \<Rightarrow>
   (py_error + bool) \<times> LoanFundsTransferSystem" where
  \<comment> \<open>the message of the returned pair is left out; an exception of
      \<^const>\<open>disburse_funds\<close> passes through\<close>
  "complete_loan_setup lid amount current_exen_price now1 now2 now3 s =
     (case deposit_collateral lid amount current_exen_price now1 now2 s of
        (None, s1) \<Rightarrow> (Inr False, s1)
      | (Some r, s1) \<Rightarrow>
          (case verify_collateral_health lid current_exen_price s1 of
             Inl e \<Rightarrow> (Inl e, s1)
           | Inr (is_healthy, hf) \<Rightarrow>
               if \<not> is_healthy then (Inr False, s1)
               else
                 (case disburse_funds lid now3 s1 of
                    (Inl e, s2) \<Rightarrow> (Inl e, s2)
                  | (Inr None, s2) \<Rightarrow> (Inr False, s2)
                  | (Inr (Some transfer), s2) \<Rightarrow>
                      (case map_of (loan_accounts s2) lid of
                         None \<Rightarrow> (Inl KeyError, s2)
                       | Some loan \<Rightarrow>
                           (Inr True,
                            s2\<lparr>loan_accounts :=
                              AList.update lid (loan\<lparr>status := COMPLETED\<rparr>) (loan_accounts s2)\<rparr>)))))"

definition total_owed :: "LoanAccount \<Rightarrow> datetime \<Rightarrow> decimal" where
  \<comment> \<open>the two locals \<^verbatim>\<open>accrued_interest\<close> and \<^verbatim>\<open>total_owed\<close> of
      \<^verbatim>\<open>process_repayment\<close>\<close>
  "total_owed loan now =
     loan_amount_usd loan +
     loan_amount_usd loan * (interest_rate loan / 100) *
       (real_of_int (days_of (now - origination_timestamp loan)) / 365)"

definition process_repayment ::
  "string \<Rightarrow> decimal \<Rightarrow> string \<Rightarrow> datetime \<Rightarrow> LoanFundsTransferSystem \<Rightarrow>
   bool \<times> LoanFundsTransferSystem" where
  "process_repayment lid repayment_amount_usd from_addr now s =
     (case map_of (loan_accounts s) lid of
        None \<Rightarrow> (False, s)
      | Some loan \<Rightarrow>
          let days_outstanding = days_of (now - origination_timestamp loan);
              accrued = loan_amount_usd loan * (interest_rate loan / 100) *
                (real_of_int days_outstanding / 365);
              owed = loan_amount_usd loan + accrued
          in if repayment_amount_usd < owed then (False, s)
             else
               let loan' = loan\<lparr>repaid_amount := repayment_amount_usd, accrued_interest := accrued\<rparr>;
                   s1 = s\<lparr>loan_accounts := AList.update lid loan' (loan_accounts s)\<rparr>;
                   s2 = (case collateral_deposit loan' of
                           None \<Rightarrow> s1
                         | Some r \<Rightarrow>
                             let deposit = deposit_store s1 r;
                                 vault = escrow_vault s1
                             in s1\<lparr>deposit_store :=
                                     (deposit_store s1)(r := deposit\<lparr>cd_status := RELEASED\<rparr>),
                                   escrow_vault := vault\<lparr>total_collateral_locked :=
                                     total_collateral_locked vault - collateral_value_usd deposit\<rparr>\<rparr>)
               in (True, s2\<lparr>lending_pool_balance := lending_pool_balance s2 + repayment_amount_usd\<rparr>))"

definition locked_value_sum :: "LoanFundsTransferSystem \<Rightarrow> decimal" where
  \<comment> \<open>the sum of \<^verbatim>\<open>collateral_value_usd\<close> over the deposits of the vault whose
      status is \<^verbatim>\<open>LOCKED\<close>, the selection \<^verbatim>\<open>get_escrow_status\<close> counts\<close>
  "locked_value_sum s =
     sum_list (map (\<lambda>(k, r). collateral_value_usd (deposit_store s r))
       (filter (\<lambda>(k, r). cd_status (deposit_store s r) = LOCKED) (deposits (escrow_vault s))))"

section \<open>The decision engine: \<^verbatim>\<open>credit_decision.py\<close>\<close>

datatype DecisionStatus = APPROVED | CONDITIONAL_APPROVAL | DENIED | PENDING_REVIEW

datatype RiskLevel = MINIMAL | LOW | MODERATE | HIGH | VERY_HIGH

record LoanRequest =
  request_id :: string
  lr_wallet_address :: string
  collateral_amount :: decimal
  borrow_amount_usd :: decimal
  collateral_token_price :: decimal
  credit_score :: decimal
  credit_rating :: string
  total_inflow :: decimal
  total_outflow :: decimal
  net_flow :: decimal
  current_balance :: decimal
  transaction_success_rate :: decimal
  transaction_count :: int
  average_inflow :: decimal
  requested_at :: datetime

record RiskAssessment =
  collateral_risk :: decimal
  credit_risk :: decimal
  liquidity_risk :: decimal
  behavioral_risk :: decimal
  overall_risk_score :: decimal
  risk_level :: RiskLevel
  key_risk_factors :: "string list"

record LoanTerms =
  loan_amount :: decimal
  lt_interest_rate :: decimal
  lt_ltv_ratio :: decimal
  collateral_required :: decimal
  liquidation_threshold :: decimal
  lt_repayment_period_days :: int
  monthly_payment :: decimal
  total_interest :: decimal

text \<open>
  The reasons of a decision are f-strings over \<^verbatim>\<open>Decimal\<close> values; the text of a
  formatted number is not modelled, so a reason is kept as the template with its
  arguments.
\<close>

datatype reason =
    Text string
  | CreditScoreBelowMinimum decimal decimal
  | LoanAmountExceedsMaximum decimal
  | LoanAmountBelowMinimum decimal
  | RiskScoreExceedsThreshold decimal "string list"

record LoanDecision =
  decision_id :: string
  ld_request_id :: string
  ld_wallet_address :: string
  ld_status :: DecisionStatus
  decision_timestamp :: datetime
  risk_assessment :: RiskAssessment
  proposed_terms :: "LoanTerms option"
  approval_reason :: string
  denial_reason :: "reason option"
  conditions :: "string list"
  ld_collateral_required :: decimal
  max_ltv :: decimal
  confidence_score :: decimal
  manual_review_required :: bool
  manual_review_reason :: "string option"

record AutoDecisionEngine =
  decisions :: "LoanDecision list"
  decision_counter :: nat
  base_ltv :: decimal
  min_credit_score :: decimal
  min_transactions :: int
  min_success_rate :: decimal
  max_loan_amount_usd :: decimal
  min_loan_amount_usd :: decimal

definition init_engine :: AutoDecisionEngine where
  \<comment> \<open>\<^verbatim>\<open>AutoDecisionEngine.__init__\<close>\<close>
  "init_engine = \<lparr>decisions = [], decision_counter = 0, base_ltv = 60,
     min_credit_score = 400, min_transactions = 3, min_success_rate = 80,
     max_loan_amount_usd = 500000, min_loan_amount_usd = 100\<rparr>"

definition assess_collateral_risk :: "LoanRequest \<Rightarrow> decimal" where
  "assess_collateral_risk r =
     (let collateral_value = collateral_amount r * collateral_token_price r
      in if collateral_value \<le> 0 then 100
         else
           let ltv = borrow_amount_usd r / collateral_value * 100
           in if ltv \<le> 30 then 5
              else if ltv \<le> 50 then 15
              else if ltv \<le> 60 then 25
              else if ltv \<le> 75 then 50
              else 80)"

definition assess_credit_risk :: "LoanRequest \<Rightarrow> decimal" where
  "assess_credit_risk r =
     (let score = credit_score r
      in if 750 \<le> score then 5
         else if 650 \<le> score then 15
         else if 550 \<le> score then 30
         else if 450 \<le> score then 60
         else 85)"

definition assess_liquidity_risk :: "LoanRequest \<Rightarrow> decimal" where
  \<comment> \<open>the local \<^verbatim>\<open>cash_flow_ratio\<close> is computed and never read\<close>
  "assess_liquidity_risk r =
     (let estimated_monthly_outflow = average_inflow r * (8 / 10);
          outflow_coverage =
            (if estimated_monthly_outflow = 0 then 100
             else current_balance r / estimated_monthly_outflow)
      in if 6 \<le> outflow_coverage then 10
         else if 3 \<le> outflow_coverage then 20
         else if 1 \<le> outflow_coverage then 40
         else if 1 / 2 \<le> outflow_coverage then 65
         else 90)"

definition assess_behavioral_risk :: "LoanRequest \<Rightarrow> decimal" where
  "assess_behavioral_risk r =
     (let risk1 = (if transaction_count r < 5 then 20
                   else if transaction_count r < 20 then 10
                   else if transaction_count r < 50 then 5
                   else 0);
          risk2 = risk1 + (if transaction_success_rate r < 80 then 25
                           else if transaction_success_rate r < 95 then 10
                           else 0);
          risk3 = risk2 + (if net_flow r \<le> 0 then 30
                           else if net_flow r < average_inflow r * (1 / 2) then 15
                           else 0)
      in min risk3 100)"

definition perform_risk_assessment :: "LoanRequest \<Rightarrow> RiskAssessment" where
  "perform_risk_assessment r =
     (let c = assess_collateral_risk r;
          cr = assess_credit_risk r;
          l = assess_liquidity_risk r;
          b = assess_behavioral_risk r;
          overall = quantize 2 (c * (30 / 100) + cr * (35 / 100) + l * (20 / 100) + b * (15 / 100));
          level = (if overall \<le> 15 then MINIMAL
                   else if overall \<le> 30 then LOW
                   else if overall \<le> 50 then MODERATE
                   else if overall \<le> 75 then HIGH
                   else VERY_HIGH);
          key_factors =
            (if 50 < c then [''High collateral risk''] else []) @
            (if 50 < cr then [''Poor credit history''] else []) @
            (if 50 < l then [''Low cash flow coverage''] else []) @
            (if 50 < b then [''Concerning transaction patterns''] else [])
      in \<lparr>collateral_risk = c, credit_risk = cr, liquidity_risk = l, behavioral_risk = b,
           overall_risk_score = overall, risk_level = level, key_risk_factors = key_factors\<rparr>)"

definition calculate_loan_terms ::
  "AutoDecisionEngine \<Rightarrow> LoanRequest \<Rightarrow> RiskAssessment \<Rightarrow> LoanTerms" where
  "calculate_loan_terms e r ra =
     (let collateral_value = collateral_amount r * collateral_token_price r;
          (ltv, rate0) =
            (case risk_level ra of
               MINIMAL \<Rightarrow> (base_ltv e, 8)
             | LOW \<Rightarrow> (base_ltv e, 10)
             | MODERATE \<Rightarrow> (base_ltv e * (9 / 10), 12)
             | HIGH \<Rightarrow> (base_ltv e * (7 / 10), 15)
             | VERY_HIGH \<Rightarrow> (base_ltv e * (5 / 10), 18));
          credit_score_factor = (credit_score r - 300) / 550;
          rate1 = rate0 * (1 - credit_score_factor * (4 / 10));
          rate2 = max rate1 5;
          rate = min rate2 18;
          max_loan = collateral_value * ltv / 100;
          amount = min (borrow_amount_usd r) max_loan;
          repayment_days = 180;
          annual_interest = amount * rate / 100;
          interest = annual_interest * real_of_int repayment_days / 365;
          monthly = (amount + interest) / 6
      in \<lparr>loan_amount = quantize 2 amount, lt_interest_rate = quantize 2 rate,
           lt_ltv_ratio = quantize 2 ltv, collateral_required = collateral_amount r,
           liquidation_threshold = 1, lt_repayment_period_days = repayment_days,
           monthly_payment = quantize 2 monthly, total_interest = quantize 2 interest\<rparr>)"

definition gate_assessment :: "decimal \<Rightarrow> decimal \<Rightarrow> decimal \<Rightarrow> RiskLevel \<Rightarrow> string list \<Rightarrow> RiskAssessment" where
  \<comment> \<open>the literal \<^verbatim>\<open>RiskAssessment\<close> of a preliminary check: collateral and
      liquidity risk are zero in all four\<close>
  "gate_assessment cr b overall level factors =
     \<lparr>collateral_risk = 0, credit_risk = cr, liquidity_risk = 0, behavioral_risk = b,
      overall_risk_score = overall, risk_level = level, key_risk_factors = factors\<rparr>"

definition make_decision ::
  "LoanRequest \<Rightarrow> datetime \<Rightarrow> AutoDecisionEngine \<Rightarrow> LoanDecision \<times> AutoDecisionEngine" where
  \<comment> \<open>a preliminary check returns its decision without appending it to
      \<^verbatim>\<open>self.decisions\<close>\<close>
  "make_decision r now e0 =
     (let e = e0\<lparr>decision_counter := decision_counter e0 + 1\<rparr>;
          did = ''DECISION_'' @ str_nat (decision_counter e)
      in if credit_score r < min_credit_score e then
           (\<lparr>decision_id = did, ld_request_id = request_id r,
              ld_wallet_address = lr_wallet_address r, ld_status = DENIED,
              decision_timestamp = now,
              risk_assessment = gate_assessment 100 0 100 VERY_HIGH [],
              proposed_terms = None, approval_reason = [],
              denial_reason = Some (CreditScoreBelowMinimum (credit_score r) (min_credit_score e)),
              conditions = [], ld_collateral_required = 0, max_ltv = 0,
              confidence_score = 99, manual_review_required = False,
              manual_review_reason = None\<rparr>, e)
         else if transaction_count r < min_transactions e then
           (\<lparr>decision_id = did, ld_request_id = request_id r,
              ld_wallet_address = lr_wallet_address r, ld_status = PENDING_REVIEW,
              decision_timestamp = now,
              risk_assessment = gate_assessment 0 80 80 HIGH [''Insufficient transaction history''],
              proposed_terms = None, approval_reason = [],
              denial_reason = None,
              conditions = [], ld_collateral_required = 0, max_ltv = 0,
              confidence_score = 40, manual_review_required = True,
              manual_review_reason = Some ''Insufficient on-chain history for auto approval''\<rparr>, e)
         else if max_loan_amount_usd e < borrow_amount_usd r then
           (\<lparr>decision_id = did, ld_request_id = request_id r,
              ld_wallet_address = lr_wallet_address r, ld_status = DENIED,
              decision_timestamp = now,
              risk_assessment = gate_assessment 0 0 0 MINIMAL [],
              proposed_terms = None, approval_reason = [],
              denial_reason = Some (LoanAmountExceedsMaximum (max_loan_amount_usd e)),
              conditions = [], ld_collateral_required = 0, max_ltv = 0,
              confidence_score = 99, manual_review_required = False,
              manual_review_reason = None\<rparr>, e)
         else if borrow_amount_usd r < min_loan_amount_usd e then
           (\<lparr>decision_id = did, ld_request_id = request_id r,
              ld_wallet_address = lr_wallet_address r, ld_status = DENIED,
              decision_timestamp = now,
              risk_assessment = gate_assessment 0 0 0 MINIMAL [],
              proposed_terms = None, approval_reason = [],
              denial_reason = Some (LoanAmountBelowMinimum (min_loan_amount_usd e)),
              conditions = [], ld_collateral_required = 0, max_ltv = 0,
              confidence_score = 99, manual_review_required = False,
              manual_review_reason = None\<rparr>, e)
         else
           let ra = perform_risk_assessment r;
               terms = calculate_loan_terms e r ra;
               (st, approval, conds, confidence) =
                 (if overall_risk_score ra \<le> 15 then
                    (APPROVED,
                     ''Minimal risk profile. Excellent credit history and collateral coverage.'',
                     [], 95)
                  else if overall_risk_score ra \<le> 30 then
                    (APPROVED,
                     ''Low risk profile. Good credit score and adequate collateral.'', [], 90)
                  else if overall_risk_score ra \<le> 50 then
                    (CONDITIONAL_APPROVAL, ''Moderate risk accepted with conditions.'',
                     [''Higher interest rate applied'', ''Reduced LTV ratio'',
                      ''Monthly collateral health check required''], 75)
                  else if overall_risk_score ra \<le> 75 then (PENDING_REVIEW, [], [], 45)
                  else (DENIED, [], [], 90));
               decision = \<lparr>decision_id = did, ld_request_id = request_id r,
                 ld_wallet_address = lr_wallet_address r, ld_status = st,
                 decision_timestamp = now, risk_assessment = ra,
                 proposed_terms = (if st \<noteq> DENIED then Some terms else None),
                 approval_reason = approval,
                 denial_reason =
                   (if st \<noteq> DENIED then Some (Text approval)
                    else Some (RiskScoreExceedsThreshold (overall_risk_score ra) (key_risk_factors ra))),
                 conditions = conds, ld_collateral_required = collateral_amount r,
                 max_ltv = lt_ltv_ratio terms, confidence_score = confidence,
                 manual_review_required = (st = PENDING_REVIEW),
                 manual_review_reason = None\<rparr>
           in (decision, e\<lparr>decisions := decisions e @ [decision]\<rparr>))"

section \<open>The credit scorer: \<^verbatim>\<open>credit_scorecard.py\<close>\<close>

datatype CreditRating = EXCELLENT | VERY_GOOD | GOOD | FAIR | POOR

datatype TransactionType = INFLOW | OUTFLOW | INTERNAL

record Transaction =
  t_tx_hash :: string
  timestamp :: datetime
  amount :: decimal
  transaction_type :: TransactionType
  counterparty :: string
  description :: string
  is_successful :: bool

record WalletMetrics =
  wm_total_inflow :: decimal
  wm_total_outflow :: decimal
  wm_net_flow :: decimal
  inflow_count :: int
  outflow_count :: int
  avg_inflow :: decimal
  avg_outflow :: decimal
  wm_transaction_count :: int
  success_rate :: decimal
  wm_current_balance :: decimal

record CredibilityFactors =
  transaction_volume_score :: decimal
  payment_consistency_score :: decimal
  inflow_reliability_score :: decimal
  balance_stability_score :: decimal
  transaction_success_rate_score :: decimal
  account_age_score :: decimal

record CreditScoreReport =
  csr_wallet_address :: string
  csr_credit_score :: decimal
  csr_credit_rating :: CreditRating
  borrow_limit_usd :: decimal
  interest_rate_adjustment :: decimal
  metrics :: WalletMetrics
  credibility_factors :: CredibilityFactors
  analysis_timestamp :: datetime
  recommendation :: string

record WalletData =
  \<comment> \<open>the dictionary stored per wallet in \<^verbatim>\<open>self.wallets\<close>\<close>
  address :: string
  wd_current_balance :: decimal
  transactions :: "Transaction list"
  created_at :: datetime

record SolanaWalletAnalyzer =
  wallets :: "(string \<times> WalletData) list"
  base_interest_rate :: decimal
  max_interest_rate :: decimal
  current_wallet :: "string option"

definition init_analyzer :: SolanaWalletAnalyzer where
  \<comment> \<open>\<^verbatim>\<open>SolanaWalletAnalyzer.__init__\<close>; the attribute \<^verbatim>\<open>_current_wallet\<close> does
      not exist before the first call of \<^verbatim>\<open>generate_credit_score\<close>\<close>
  "init_analyzer = \<lparr>wallets = [], base_interest_rate = 8, max_interest_rate = 18,
     current_wallet = None\<rparr>"

definition add_wallet :: "string \<Rightarrow> decimal \<Rightarrow> datetime \<Rightarrow> SolanaWalletAnalyzer \<Rightarrow> SolanaWalletAnalyzer" where
  "add_wallet w balance now a =
     a\<lparr>wallets := AList.update w
       \<lparr>address = w, wd_current_balance = balance, transactions = [], created_at = now\<rparr>
       (wallets a)\<rparr>"

definition parse_transaction_type :: "string \<Rightarrow> TransactionType option" where
  \<comment> \<open>\<^verbatim>\<open>TransactionType(transaction_type)\<close>, \<open>None\<close> for the \<^verbatim>\<open>ValueError\<close>\<close>
  "parse_transaction_type t =
     (if t = ''inflow'' then Some INFLOW
      else if t = ''outflow'' then Some OUTFLOW
      else if t = ''internal'' then Some INTERNAL
      else None)"

definition add_transaction ::
  "string \<Rightarrow> string \<Rightarrow> datetime \<Rightarrow> decimal \<Rightarrow> string \<Rightarrow> string \<Rightarrow> string \<Rightarrow> bool \<Rightarrow>
   SolanaWalletAnalyzer \<Rightarrow> bool \<times> SolanaWalletAnalyzer" where
  "add_transaction w h ts amt ty cp descr ok a =
     (case map_of (wallets a) w of
        None \<Rightarrow> (False, a)
      | Some d \<Rightarrow>
          (case parse_transaction_type ty of
             None \<Rightarrow> (False, a)
           | Some tx_type \<Rightarrow>
               let tx = \<lparr>t_tx_hash = h, timestamp = ts, amount = amt, transaction_type = tx_type,
                     counterparty = cp, description = descr, is_successful = ok\<rparr>
               in (True,
                   a\<lparr>wallets := AList.update w (d\<lparr>transactions := transactions d @ [tx]\<rparr>)
                     (wallets a)\<rparr>)))"

definition default_metrics :: WalletMetrics where
  \<comment> \<open>\<^verbatim>\<open>WalletMetrics()\<close>\<close>
  "default_metrics = \<lparr>wm_total_inflow = 0, wm_total_outflow = 0, wm_net_flow = 0,
     inflow_count = 0, outflow_count = 0, avg_inflow = 0, avg_outflow = 0,
     wm_transaction_count = 0, success_rate = 100, wm_current_balance = 0\<rparr>"

definition calculate_wallet_metrics :: "SolanaWalletAnalyzer \<Rightarrow> string \<Rightarrow> WalletMetrics" where
  "calculate_wallet_metrics a w =
     (case map_of (wallets a) w of
        None \<Rightarrow> default_metrics
      | Some d \<Rightarrow>
          let txs = transactions d;
              m = default_metrics\<lparr>wm_current_balance := wd_current_balance d\<rparr>
          in if txs = [] then m
             else
               let inflows = filter (\<lambda>tx. transaction_type tx = INFLOW) txs;
                   outflows = filter (\<lambda>tx. transaction_type tx = OUTFLOW) txs;
                   tin = sum_list (map amount inflows);
                   tout = sum_list (map amount outflows);
                   successful = length (filter is_successful txs)
               in m\<lparr>wm_total_inflow := tin, wm_total_outflow := tout,
                    wm_net_flow := tin - tout,
                    inflow_count := int (length inflows),
                    outflow_count := int (length outflows),
                    wm_transaction_count := int (length txs),
                    avg_inflow := tin / real_of_int (max (int (length inflows)) 1),
                    avg_outflow := tout / real_of_int (max (int (length outflows)) 1),
                    success_rate := real successful / real (length txs) * 100\<rparr>)"

definition calculate_transaction_volume_score :: "WalletMetrics \<Rightarrow> decimal" where
  "calculate_transaction_volume_score m =
     (let total_volume = wm_total_inflow m + wm_total_outflow m
      in if total_volume < 100 then 2
         else if total_volume < 500 then 5
         else if total_volume < 1000 then 10
         else if total_volume < 5000 then 15
         else 20)"

definition calculate_payment_consistency_score :: "WalletMetrics \<Rightarrow> decimal" where
  "calculate_payment_consistency_score m =
     (if wm_transaction_count m < 3 then 2
      else if outflow_count m = 0 then 5
      else
        let consistency_ratio = real_of_int (inflow_count m) / real_of_int (outflow_count m)
        in if 3 / 2 \<le> consistency_ratio then 18
           else if 1 \<le> consistency_ratio then 15
           else if 7 / 10 \<le> consistency_ratio then 12
           else if 1 / 2 \<le> consistency_ratio then 8
           else 4)"

definition calculate_inflow_reliability_score ::
  "SolanaWalletAnalyzer \<Rightarrow> WalletMetrics \<Rightarrow> py_error + decimal" where
  \<comment> \<open>the inflow amounts are read from the stored transactions of the wallet that
      \<^verbatim>\<open>self._current_wallet\<close> names, not from the metrics\<close>
  "calculate_inflow_reliability_score a m =
     (if wm_total_inflow m = 0 then Inr 2
      else if inflow_count m < 2 then Inr 5
      else
        (case current_wallet a of
           None \<Rightarrow> Inl AttributeError
         | Some cw \<Rightarrow>
             (case map_of (wallets a) cw of
                None \<Rightarrow> Inl KeyError
              | Some d \<Rightarrow>
                  let inflow_values =
                        map amount (filter (\<lambda>tx. transaction_type tx = INFLOW) (transactions d))
                  in if length inflow_values < 2 then Inr 10
                     else
                       let mean_inflow = avg_inflow m;
                           variance = sum_list (map (\<lambda>x. (x - mean_inflow) ^ 2) inflow_values)
                                      / real (length inflow_values)
                       in if mean_inflow = 0 then Inr 5
                          else
                            let cv = (if 0 < variance then sqrt variance / mean_inflow else 0)
                            in if cv < 2 / 10 then Inr 18
                               else if cv < 5 / 10 then Inr 15
                               else if cv < 1 then Inr 12
                               else Inr 8)))"

definition calculate_balance_stability_score :: "WalletMetrics \<Rightarrow> decimal" where
  "calculate_balance_stability_score m =
     (if wm_net_flow m \<le> 0 then 5
      else if wm_current_balance m \<le> 0 then 2
      else
        let balance_ratio =
              (if avg_outflow m = 0 then 100 else wm_current_balance m / avg_outflow m)
        in if 10 \<le> balance_ratio then 20
           else if 5 \<le> balance_ratio then 16
           else if 2 \<le> balance_ratio then 12
           else if 1 \<le> balance_ratio then 8
           else 4)"

definition calculate_transaction_success_rate_score :: "WalletMetrics \<Rightarrow> decimal" where
  "calculate_transaction_success_rate_score m =
     (if 98 \<le> success_rate m then 20
      else if 95 \<le> success_rate m then 16
      else if 90 \<le> success_rate m then 12
      else if 80 \<le> success_rate m then 8
      else 2)"

definition calculate_account_age_score ::
  "SolanaWalletAnalyzer \<Rightarrow> string \<Rightarrow> datetime \<Rightarrow> py_error + decimal" where
  "calculate_account_age_score a w now =
     (case map_of (wallets a) w of
        None \<Rightarrow> Inl KeyError
      | Some d \<Rightarrow>
          let age_days = days_of (now - created_at d)
          in if 365 \<le> age_days then Inr 20
             else if 180 \<le> age_days then Inr 15
             else if 90 \<le> age_days then Inr 10
             else if 30 \<le> age_days then Inr 5
             else Inr 2)"

definition rating_of :: "decimal \<Rightarrow> CreditRating" where
  \<comment> \<open>the chain \<^verbatim>\<open>if credit_score >= Decimal(750): ...\<close> of
      \<^verbatim>\<open>generate_credit_score\<close>\<close>
  "rating_of score =
     (if 750 \<le> score then EXCELLENT
      else if 650 \<le> score then VERY_GOOD
      else if 550 \<le> score then GOOD
      else if 450 \<le> score then FAIR
      else POOR)"

definition rate_adjustment_of :: "CreditRating \<Rightarrow> decimal" where
  "rate_adjustment_of rating =
     (case rating of EXCELLENT \<Rightarrow> - (3 / 2) | VERY_GOOD \<Rightarrow> - (1 / 2) | GOOD \<Rightarrow> 0
      | FAIR \<Rightarrow> 2 | POOR \<Rightarrow> 5)"

definition recommendation_of :: "CreditRating \<Rightarrow> string" where
  "recommendation_of rating =
     (case rating of
        EXCELLENT \<Rightarrow>
          ''Excellent on-chain history. Eligible for maximum borrowing at favorable rates.''
      | VERY_GOOD \<Rightarrow>
          ''Very good on-chain behavior. Eligible for substantial borrowing with competitive rates.''
      | GOOD \<Rightarrow> ''Good transaction history. Standard borrowing rates apply.''
      | FAIR \<Rightarrow> ''Fair on-chain activity. Limited borrowing available at higher rates.''
      | POOR \<Rightarrow>
          ''Poor transaction history. Not recommended for lending at this time. Build more on-chain activity.'')"

definition generate_credit_score ::
  "string \<Rightarrow> datetime \<Rightarrow> datetime \<Rightarrow> SolanaWalletAnalyzer \<Rightarrow>
   (py_error + CreditScoreReport option) \<times> SolanaWalletAnalyzer" where
  \<comment> \<open>\<open>now1\<close> is the clock read of the account-age score, \<open>now2\<close> the one of the
      report's timestamp\<close>
  "generate_credit_score w now1 now2 a0 =
     (case map_of (wallets a0) w of
        None \<Rightarrow> (Inr None, a0)
      | Some d \<Rightarrow>
          let a = a0\<lparr>current_wallet := Some w\<rparr>;
              m = calculate_wallet_metrics a w;
              v = calculate_transaction_volume_score m;
              c = calculate_payment_consistency_score m
          in (case calculate_inflow_reliability_score a m of
                Inl err \<Rightarrow> (Inl err, a)
              | Inr i \<Rightarrow>
                  let b = calculate_balance_stability_score m;
                      t = calculate_transaction_success_rate_score m
                  in (case calculate_account_age_score a w now1 of
                        Inl err \<Rightarrow> (Inl err, a)
                      | Inr age \<Rightarrow>
                          let factors = \<lparr>transaction_volume_score = v,
                                payment_consistency_score = c, inflow_reliability_score = i,
                                balance_stability_score = b, transaction_success_rate_score = t,
                                account_age_score = age\<rparr>;
                              total_score = (v + c + i + b + t) / 5;
                              score = quantize 0 (300 + total_score / 20 * 550);
                              rating = rating_of score;
                              borrow_limit = quantize 0 (1000 * (score / 850))
                          in (Inr (Some \<lparr>csr_wallet_address = w, csr_credit_score = score,
                                csr_credit_rating = rating, borrow_limit_usd = borrow_limit,
                                interest_rate_adjustment = rate_adjustment_of rating,
                                metrics = m, credibility_factors = factors,
                                analysis_timestamp = now2,
                                recommendation = recommendation_of rating\<rparr>), a))))"

section \<open>A concrete run of the loan ledger\<close>

text \<open>
  The first loan of the module's own demonstration: 5000 USD at 10 percent against
  100000 EXEN at 0.10 USD, created and collateralised at time 0; \<open>day73\<close> is the
  clock 73 days later, when 100 USD of interest has accrued.
\<close>

definition demo_created :: LoanFundsTransferSystem where
  "demo_created =
     snd (create_loan_account ''BorrowerWallet1'' 5000 10 100000 (1 / 10) 60 180 0 0 init_system)"

definition demo_locked :: LoanFundsTransferSystem where
  "demo_locked = snd (deposit_collateral ''LOAN_1'' 100000 (1 / 10) 0 0 demo_created)"

definition day73 :: datetime where
  "day73 = timedelta_days 73"

definition demo_repaid :: LoanFundsTransferSystem where
  "demo_repaid = snd (process_repayment ''LOAN_1'' 5100 ''BorrowerWallet1'' day73 demo_locked)"

definition demo_repaid_twice :: LoanFundsTransferSystem where
  "demo_repaid_twice = snd (process_repayment ''LOAN_1'' 5100 ''BorrowerWallet1'' day73 demo_repaid)"

definition demo_loan_pending :: LoanAccount where
  "demo_loan_pending = \<lparr>loan_id = ''LOAN_1'', wallet_address = ''BorrowerWallet1'',
     loan_amount_usd = 5000, interest_rate = 10, collateral_amount_exen = 100000,
     collateral_price_usd = 1 / 10, ltv_ratio = 60, repayment_period_days = 180,
     origination_timestamp = 0, repayment_due_date = timedelta_days 180, status = PENDING,
     collateral_deposit = None, funds_transfer = None,
     borrowed_amount_received = 0, repaid_amount = 0, accrued_interest = 0\<rparr>"

definition demo_loan_locked :: LoanAccount where
  "demo_loan_locked = demo_loan_pending\<lparr>collateral_deposit := Some 0, status := COLLATERAL_LOCKED\<rparr>"

text \<open>
  A second run: a loan of 200000 USD, twice the initial balance of the lending pool,
  created on a fresh system and collateralised.
\<close>

definition big_created :: LoanFundsTransferSystem where
  "big_created =
     snd (create_loan_account ''BorrowerWallet2'' 200000 10 4000000 (1 / 10) 50 180 0 0 init_system)"

definition big_locked :: LoanFundsTransferSystem where
  "big_locked = snd (deposit_collateral ''LOAN_1'' 4000000 (1 / 10) 0 0 big_created)"

definition big_loan_locked :: LoanAccount where
  "big_loan_locked = \<lparr>loan_id = ''LOAN_1'', wallet_address = ''BorrowerWallet2'',
     loan_amount_usd = 200000, interest_rate = 10, collateral_amount_exen = 4000000,
     collateral_price_usd = 1 / 10, ltv_ratio = 50, repayment_period_days = 180,
     origination_timestamp = 0, repayment_due_date = timedelta_days 180,
     status = COLLATERAL_LOCKED, collateral_deposit = Some 0, funds_transfer = None,
     borrowed_amount_received = 0, repaid_amount = 0, accrued_interest = 0\<rparr>"

section \<open>Concrete loan requests\<close>

text \<open>
  \<open>request_excellent\<close> is the first request of the module's own demonstration.
  \<open>request_low_score\<close> has credit score 300 and a single transaction;
  \<open>request_thin_history\<close> has credit score 500 and a single transaction.
\<close>

definition request_excellent :: LoanRequest where
  "request_excellent = \<lparr>request_id = ''REQ_001'',
     lr_wallet_address = ''ExcellentWallet1111111111111111111111111'',
     collateral_amount = 100000, borrow_amount_usd = 5000, collateral_token_price = 1 / 10,
     credit_score = 780, credit_rating = ''excellent'', total_inflow = 50000,
     total_outflow = 20000, net_flow = 30000, current_balance = 100,
     transaction_success_rate = 995 / 10, transaction_count = 150, average_inflow = 500,
     requested_at = 0\<rparr>"

definition request_low_score :: LoanRequest where
  "request_low_score = request_excellent\<lparr>credit_score := 300, transaction_count := 1\<rparr>"

definition request_thin_history :: LoanRequest where
  "request_thin_history = request_excellent\<lparr>credit_score := 500, transaction_count := 1\<rparr>"

section \<open>Concrete wallets\<close>

text \<open>
  \<open>demo_analyzer\<close> holds three wallets. \<open>''Fair''\<close> is the second wallet of the
  module's own demonstration. \<open>''Steady''\<close> and \<open>''Uneven''\<close> have the same balance,
  the same outflow and the same number and total of inflows; the inflows are 5 and 5 in
  the first, 1 and 9 in the second.
\<close>

definition the_report ::
  "(py_error + CreditScoreReport option) \<times> SolanaWalletAnalyzer \<Rightarrow> CreditScoreReport option" where
  \<comment> \<open>the report of a call that returned one\<close>
  "the_report res = (case fst res of Inl err \<Rightarrow> None | Inr rep \<Rightarrow> rep)"

definition fair_data :: WalletData where
  "fair_data = \<lparr>address = ''Fair'', wd_current_balance = 10,
     transactions =
       [\<lparr>t_tx_hash = ''tx1'', timestamp = 0, amount = 20, transaction_type = INFLOW,
          counterparty = ''Source1'', description = ''Large deposit'', is_successful = True\<rparr>,
        \<lparr>t_tx_hash = ''tx2'', timestamp = timedelta_days 5, amount = 15,
          transaction_type = OUTFLOW, counterparty = ''Buyer1'',
          description = ''Large withdrawal'', is_successful = True\<rparr>,
        \<lparr>t_tx_hash = ''tx3'', timestamp = timedelta_days 10, amount = 5,
          transaction_type = OUTFLOW, counterparty = ''Fee'', description = ''Gas fee'',
          is_successful = True\<rparr>,
        \<lparr>t_tx_hash = ''tx4'', timestamp = timedelta_days 12, amount = 3,
          transaction_type = INFLOW, counterparty = ''Refund'',
          description = ''Partial refund'', is_successful = False\<rparr>],
     created_at = 0\<rparr>"

definition flow :: "string \<Rightarrow> decimal \<Rightarrow> TransactionType \<Rightarrow> Transaction" where
  "flow h amt ty = \<lparr>t_tx_hash = h, timestamp = 0, amount = amt, transaction_type = ty,
     counterparty = ''Peer'', description = [], is_successful = True\<rparr>"

definition steady_data :: WalletData where
  "steady_data = \<lparr>address = ''Steady'', wd_current_balance = 50,
     transactions = [flow ''a1'' 5 INFLOW, flow ''a2'' 5 INFLOW, flow ''a3'' 2 OUTFLOW],
     created_at = 0\<rparr>"

definition uneven_data :: WalletData where
  "uneven_data = \<lparr>address = ''Uneven'', wd_current_balance = 50,
     transactions = [flow ''b1'' 1 INFLOW, flow ''b2'' 9 INFLOW, flow ''b3'' 2 OUTFLOW],
     created_at = 0\<rparr>"

definition demo_analyzer :: SolanaWalletAnalyzer where
  "demo_analyzer = init_analyzer\<lparr>wallets :=
     [(''Fair'', fair_data), (''Steady'', steady_data), (''Uneven'', uneven_data)]\<rparr>"

section \<open>Evaluation of the concrete run\<close>

lemma str_nat_digit: "n < 10 \<Longrightarrow> str_nat n = [digit_char n]"
  by (subst str_nat.simps) simp

lemma str_nat_0: "str_nat 0 = ''0''"
  by (simp add: str_nat_digit digit_char_def)

lemma str_nat_1: "str_nat (Suc 0) = ''1''"
  by (simp add: str_nat_digit digit_char_def)

lemma demo_created_loan: "map_of (loan_accounts demo_created) ''LOAN_1'' = Some demo_loan_pending"
  by (simp add: demo_created_def create_loan_account_def init_system_def Let_def str_nat_1
      demo_loan_pending_def)

lemma demo_created_rest:
  "lending_pool_balance demo_created = 100000"
  "total_collateral_locked (escrow_vault demo_created) = 0"
  "deposits (escrow_vault demo_created) = []"
  "next_ref demo_created = 0"
  "transaction_counter demo_created = 0"
  by (simp_all add: demo_created_def create_loan_account_def init_system_def Let_def)

lemma demo_locked_loan: "map_of (loan_accounts demo_locked) ''LOAN_1'' = Some demo_loan_locked"
  by (simp add: demo_locked_def deposit_collateral_def demo_created_loan Let_def update_conv'
      demo_loan_locked_def demo_loan_pending_def demo_created_rest)

lemma demo_locked_rest:
  "lending_pool_balance demo_locked = 100000"
  "total_collateral_locked (escrow_vault demo_locked) = 10000"
  "deposits (escrow_vault demo_locked) = [(''DEPOSIT_0'', 0)]"
  "cd_status (deposit_store demo_locked 0) = LOCKED"
  "collateral_value_usd (deposit_store demo_locked 0) = 10000"
  "next_ref demo_locked = 1"
  by (simp_all add: demo_locked_def deposit_collateral_def demo_created_loan Let_def
      demo_loan_pending_def demo_created_rest str_nat_0)

lemma demo_owed: "total_owed demo_loan_locked day73 = 5100"
  by (simp add: total_owed_def demo_loan_locked_def demo_loan_pending_def day73_def
      timedelta_days_def days_of_def)

section \<open>The operations of the loan ledger\<close>



lemma disburse_funds_insufficient:
  "map_of (loan_accounts s) lid = Some loan \<Longrightarrow> lending_pool_balance s < loan_amount_usd loan \<Longrightarrow>
   disburse_funds lid now s = (Inr None, s)"
  by (simp add: disburse_funds_def)

lemma disburse_funds_balance:
  "0 \<le> lending_pool_balance s \<Longrightarrow> 0 \<le> lending_pool_balance (snd (disburse_funds lid now s))"
  by (simp add: disburse_funds_def Let_def split: option.split sum.split)

lemma disburse_funds_attribute_error:
  "map_of (loan_accounts s) lid = Some loan \<Longrightarrow> status loan = COLLATERAL_LOCKED \<Longrightarrow>
   loan_amount_usd loan \<le> lending_pool_balance s \<Longrightarrow>
   disburse_funds lid now s =
     (Inl AttributeError, s\<lparr>transaction_counter := transaction_counter s + 1\<rparr>)"
  by (simp add: disburse_funds_def generate_tx_hash_def Let_def)



lemma deposit_collateral_any_status:
  assumes "map_of (loan_accounts s) lid = Some loan" and "amt = collateral_amount_exen loan"
  shows "fst (deposit_collateral lid amt price now1 now2 s) = Some (next_ref s)"
    and "map_of (loan_accounts (snd (deposit_collateral lid amt price now1 now2 s))) lid =
           Some (loan\<lparr>collateral_deposit := Some (next_ref s), status := COLLATERAL_LOCKED\<rparr>)"
    and "total_collateral_locked (escrow_vault (snd (deposit_collateral lid amt price now1 now2 s))) =
           total_collateral_locked (escrow_vault s) + amt * price"
  using assms by (simp_all add: deposit_collateral_def Let_def update_conv')



lemma process_repayment_linked:
  assumes "map_of (loan_accounts s) lid = Some loan" and "total_owed loan now \<le> amt"
    and "collateral_deposit loan = Some r"
  shows "process_repayment lid amt frm now s =
    (True,
     s\<lparr>loan_accounts := AList.update lid
         (loan\<lparr>repaid_amount := amt, accrued_interest := total_owed loan now - loan_amount_usd loan\<rparr>)
         (loan_accounts s),
       deposit_store := (deposit_store s)(r := (deposit_store s r)\<lparr>cd_status := RELEASED\<rparr>),
       escrow_vault := (escrow_vault s)\<lparr>total_collateral_locked :=
         total_collateral_locked (escrow_vault s) - collateral_value_usd (deposit_store s r)\<rparr>,
       lending_pool_balance := lending_pool_balance s + amt\<rparr>)"
  using assms by (simp add: process_repayment_def total_owed_def Let_def)


lemma total_owed_repaid:
  "total_owed (loan\<lparr>repaid_amount := a, accrued_interest := b\<rparr>) now = total_owed loan now"
  by (simp add: total_owed_def)


section \<open>The concrete run, continued\<close>

lemma demo_loan_locked_fields:
  "status demo_loan_locked = COLLATERAL_LOCKED"
  "collateral_deposit demo_loan_locked = Some 0"
  "loan_amount_usd demo_loan_locked = 5000"
  "collateral_amount_exen demo_loan_locked = 100000"
  by (simp_all add: demo_loan_locked_def demo_loan_pending_def)

lemma demo_repaid_state:
  "demo_repaid = demo_locked
     \<lparr>loan_accounts := AList.update ''LOAN_1''
        (demo_loan_locked\<lparr>repaid_amount := 5100, accrued_interest := 100\<rparr>)
        (loan_accounts demo_locked),
      deposit_store := (deposit_store demo_locked)
        (0 := (deposit_store demo_locked 0)\<lparr>cd_status := RELEASED\<rparr>),
      escrow_vault := (escrow_vault demo_locked)\<lparr>total_collateral_locked := 0\<rparr>,
      lending_pool_balance := 105100\<rparr>"
proof -
  have owed: "total_owed demo_loan_locked day73 \<le> 5100"
    by (simp add: demo_owed)
  show ?thesis
    unfolding demo_repaid_def
    using process_repayment_linked [OF demo_locked_loan owed demo_loan_locked_fields(2),
        of "''BorrowerWallet1''"]
    by (simp add: demo_owed demo_locked_rest demo_loan_locked_fields)
qed

lemma demo_repaid_loan:
  "map_of (loan_accounts demo_repaid) ''LOAN_1'' =
     Some (demo_loan_locked\<lparr>repaid_amount := 5100, accrued_interest := 100\<rparr>)"
  by (simp add: demo_repaid_state update_conv')

lemma demo_repaid_rest:
  "lending_pool_balance demo_repaid = 105100"
  "total_collateral_locked (escrow_vault demo_repaid) = 0"
  "deposits (escrow_vault demo_repaid) = [(''DEPOSIT_0'', 0)]"
  "cd_status (deposit_store demo_repaid 0) = RELEASED"
  "collateral_value_usd (deposit_store demo_repaid 0) = 10000"
  by (simp_all add: demo_repaid_state demo_locked_rest)

lemma demo_repaid_twice_state:
  "demo_repaid_twice = demo_repaid
     \<lparr>loan_accounts := AList.update ''LOAN_1''
        (demo_loan_locked\<lparr>repaid_amount := 5100, accrued_interest := 100\<rparr>)
        (loan_accounts demo_repaid),
      deposit_store := (deposit_store demo_repaid)
        (0 := (deposit_store demo_repaid 0)\<lparr>cd_status := RELEASED\<rparr>),
      escrow_vault := (escrow_vault demo_repaid)\<lparr>total_collateral_locked := - 10000\<rparr>,
      lending_pool_balance := 110200\<rparr>"
proof -
  have owed: "total_owed (demo_loan_locked\<lparr>repaid_amount := 5100, accrued_interest := 100\<rparr>) day73
      \<le> 5100"
    by (simp add: total_owed_repaid demo_owed)
  have linked: "collateral_deposit (demo_loan_locked\<lparr>repaid_amount := 5100, accrued_interest := 100\<rparr>)
      = Some 0"
    by (simp add: demo_loan_locked_fields)
  show ?thesis
    unfolding demo_repaid_twice_def
    using process_repayment_linked [OF demo_repaid_loan owed linked, of "''BorrowerWallet1''"]
    by (simp add: total_owed_repaid demo_owed demo_repaid_rest demo_loan_locked_fields)
qed

lemma big_locked_loan: "map_of (loan_accounts big_locked) ''LOAN_1'' = Some big_loan_locked"
  by (simp add: big_locked_def big_created_def deposit_collateral_def create_loan_account_def
      init_system_def Let_def update_conv' str_nat_1 big_loan_locked_def)

lemma big_locked_pool: "lending_pool_balance big_locked = 100000"
  by (simp add: big_locked_def big_created_def deposit_collateral_def create_loan_account_def
      init_system_def Let_def str_nat_1)

section \<open>The claims on the loan ledger\<close>




text \<open>
  Claim C2 fails on the code: after the loan of the concrete run is repaid twice, the
  running total of the vault is -10000, while no deposit of the vault is \<open>LOCKED\<close> and
  the sum over the locked deposits is 0.
\<close>

theorem escrow_total_after_double_repayment:
  "total_collateral_locked (escrow_vault demo_repaid_twice) = - 10000 \<and>
   locked_value_sum demo_repaid_twice = 0"
  by (simp add: demo_repaid_twice_state locked_value_sum_def demo_repaid_rest)

text \<open>
  Claim C3 fails on the code: the loan of the concrete run is \<open>COLLATERAL_LOCKED\<close> and
  the pool covers its principal, and \<open>disburse_funds\<close> raises \<open>AttributeError\<close>; the
  only change of the state is the transaction counter, so the pool is not debited and
  the loan is not marked \<open>FUNDS_DISBURSED\<close>.
\<close>

theorem disburse_funds_raises:
  "map_of (loan_accounts demo_locked) ''LOAN_1'' = Some demo_loan_locked \<and>
   status demo_loan_locked = COLLATERAL_LOCKED \<and>
   loan_amount_usd demo_loan_locked \<le> lending_pool_balance demo_locked \<and>
   disburse_funds ''LOAN_1'' now demo_locked =
     (Inl AttributeError, demo_locked\<lparr>transaction_counter := transaction_counter demo_locked + 1\<rparr>)"
proof -
  have locked: "status demo_loan_locked = COLLATERAL_LOCKED"
    and covered: "loan_amount_usd demo_loan_locked \<le> lending_pool_balance demo_locked"
    by (simp_all add: demo_loan_locked_def demo_loan_pending_def demo_locked_rest)
  from disburse_funds_attribute_error [OF demo_locked_loan locked covered] demo_locked_loan locked covered
  show ?thesis by simp
qed

text \<open>
  Claim C4. \<open>disburse_funds\<close> never makes the balance of the lending pool negative, and
  on a loan whose principal exceeds the balance it returns \<open>None\<close>, the failure value
  of the function, and leaves the whole state unchanged: the pool, the loan and
  everything else.
\<close>

theorem disburse_funds_never_overdraws:
  "(0 \<le> lending_pool_balance s \<longrightarrow>
      0 \<le> lending_pool_balance (snd (disburse_funds lid now s))) \<and>
   (map_of (loan_accounts s) lid = Some loan \<and> lending_pool_balance s < loan_amount_usd loan \<longrightarrow>
      disburse_funds lid now s = (Inr None, s))"
  by (simp add: disburse_funds_balance disburse_funds_insufficient)

theorem disburse_funds_never_overdraws_witness:
  "0 \<le> lending_pool_balance big_locked \<and>
   map_of (loan_accounts big_locked) ''LOAN_1'' = Some big_loan_locked \<and>
   status big_loan_locked = COLLATERAL_LOCKED \<and>
   lending_pool_balance big_locked < loan_amount_usd big_loan_locked \<and>
   disburse_funds ''LOAN_1'' 0 big_locked = (Inr None, big_locked)"
proof -
  have short: "lending_pool_balance big_locked < loan_amount_usd big_loan_locked"
    and locked: "status big_loan_locked = COLLATERAL_LOCKED"
    by (simp_all add: big_locked_pool big_loan_locked_def)
  show ?thesis
    using disburse_funds_never_overdraws [of big_locked "''LOAN_1''" 0 big_loan_locked]
      big_locked_loan short locked
    by (simp add: big_locked_pool)
qed





section \<open>The claims on the decision engine\<close>

lemma make_decision_gate1:
  "credit_score r < min_credit_score e \<Longrightarrow>
   ld_status (fst (make_decision r now e)) = DENIED \<and>
   proposed_terms (fst (make_decision r now e)) = None \<and>
   \<not> manual_review_required (fst (make_decision r now e)) \<and>
   manual_review_reason (fst (make_decision r now e)) = None \<and>
   denial_reason (fst (make_decision r now e)) =
     Some (CreditScoreBelowMinimum (credit_score r) (min_credit_score e)) \<and>
   decisions (snd (make_decision r now e)) = decisions e"
  by (simp add: make_decision_def Let_def)

lemma make_decision_gate2:
  "\<not> credit_score r < min_credit_score e \<Longrightarrow> transaction_count r < min_transactions e \<Longrightarrow>
   ld_status (fst (make_decision r now e)) = PENDING_REVIEW \<and>
   proposed_terms (fst (make_decision r now e)) = None \<and>
   manual_review_required (fst (make_decision r now e)) \<and>
   manual_review_reason (fst (make_decision r now e)) =
     Some ''Insufficient on-chain history for auto approval'' \<and>
   denial_reason (fst (make_decision r now e)) = None \<and>
   decisions (snd (make_decision r now e)) = decisions e"
  by (simp add: make_decision_def Let_def)

lemma make_decision_gate3:
  "\<not> credit_score r < min_credit_score e \<Longrightarrow> \<not> transaction_count r < min_transactions e \<Longrightarrow>
   max_loan_amount_usd e < borrow_amount_usd r \<Longrightarrow>
   ld_status (fst (make_decision r now e)) = DENIED \<and>
   proposed_terms (fst (make_decision r now e)) = None \<and>
   manual_review_reason (fst (make_decision r now e)) = None \<and>
   denial_reason (fst (make_decision r now e)) =
     Some (LoanAmountExceedsMaximum (max_loan_amount_usd e)) \<and>
   decisions (snd (make_decision r now e)) = decisions e"
  by (simp add: make_decision_def Let_def)

lemma make_decision_gate4:
  "\<not> credit_score r < min_credit_score e \<Longrightarrow> \<not> transaction_count r < min_transactions e \<Longrightarrow>
   \<not> max_loan_amount_usd e < borrow_amount_usd r \<Longrightarrow>
   borrow_amount_usd r < min_loan_amount_usd e \<Longrightarrow>
   ld_status (fst (make_decision r now e)) = DENIED \<and>
   proposed_terms (fst (make_decision r now e)) = None \<and>
   manual_review_reason (fst (make_decision r now e)) = None \<and>
   denial_reason (fst (make_decision r now e)) =
     Some (LoanAmountBelowMinimum (min_loan_amount_usd e)) \<and>
   decisions (snd (make_decision r now e)) = decisions e"
  by (simp add: make_decision_def Let_def)

lemma make_decision_assessed:
  assumes "\<not> credit_score r < min_credit_score e" "\<not> transaction_count r < min_transactions e"
    "\<not> max_loan_amount_usd e < borrow_amount_usd r" "\<not> borrow_amount_usd r < min_loan_amount_usd e"
  shows "(proposed_terms (fst (make_decision r now e)) = None \<longleftrightarrow>
            ld_status (fst (make_decision r now e)) = DENIED) \<and>
         manual_review_reason (fst (make_decision r now e)) = None"
  using assms by (simp add: make_decision_def Let_def split: prod.split)

text \<open>
  Claim C5. With the thresholds of the constructor (400, 3, 500000, 100) the preliminary
  checks of \<open>make_decision\<close> fire in this order, each returning at once, without a
  risk assessment and without recording the decision: a credit score below 400 is
  \<open>DENIED\<close>, whatever the transaction count; otherwise a transaction count below 3 is
  \<open>PENDING_REVIEW\<close> with the manual-review flag; otherwise an amount above 500000 is
  \<open>DENIED\<close>; otherwise an amount below 100 is \<open>DENIED\<close>.
\<close>

theorem make_decision_gate_order:
  assumes "min_credit_score e = 400" and "min_transactions e = 3"
    and "max_loan_amount_usd e = 500000" and "min_loan_amount_usd e = 100"
  shows "(credit_score r < 400 \<longrightarrow>
        ld_status (fst (make_decision r now e)) = DENIED \<and>
        \<not> manual_review_required (fst (make_decision r now e)) \<and>
        denial_reason (fst (make_decision r now e)) =
          Some (CreditScoreBelowMinimum (credit_score r) 400) \<and>
        decisions (snd (make_decision r now e)) = decisions e) \<and>
     (400 \<le> credit_score r \<and> transaction_count r < 3 \<longrightarrow>
        ld_status (fst (make_decision r now e)) = PENDING_REVIEW \<and>
        manual_review_required (fst (make_decision r now e)) \<and>
        denial_reason (fst (make_decision r now e)) = None \<and>
        decisions (snd (make_decision r now e)) = decisions e) \<and>
     (400 \<le> credit_score r \<and> 3 \<le> transaction_count r \<and> 500000 < borrow_amount_usd r \<longrightarrow>
        ld_status (fst (make_decision r now e)) = DENIED \<and>
        denial_reason (fst (make_decision r now e)) = Some (LoanAmountExceedsMaximum 500000) \<and>
        decisions (snd (make_decision r now e)) = decisions e) \<and>
     (400 \<le> credit_score r \<and> 3 \<le> transaction_count r \<and> borrow_amount_usd r < 100 \<longrightarrow>
        ld_status (fst (make_decision r now e)) = DENIED \<and>
        denial_reason (fst (make_decision r now e)) = Some (LoanAmountBelowMinimum 100) \<and>
        decisions (snd (make_decision r now e)) = decisions e)"
  using make_decision_gate1 [of r e now] make_decision_gate2 [of r e now]
    make_decision_gate3 [of r e now] make_decision_gate4 [of r e now] assms
  by (simp add: not_less)

theorem make_decision_gate_order_witness:
  "min_credit_score init_engine = 400 \<and> min_transactions init_engine = 3 \<and>
   max_loan_amount_usd init_engine = 500000 \<and> min_loan_amount_usd init_engine = 100 \<and>
   credit_score request_low_score = 300 \<and> transaction_count request_low_score = 1 \<and>
   ld_status (fst (make_decision request_low_score 0 init_engine)) = DENIED \<and>
   400 \<le> credit_score request_thin_history \<and> transaction_count request_thin_history < 3 \<and>
   ld_status (fst (make_decision request_thin_history 0 init_engine)) = PENDING_REVIEW \<and>
   manual_review_required (fst (make_decision request_thin_history 0 init_engine))"
proof -
  have config: "min_credit_score init_engine = 400" "min_transactions init_engine = 3"
    "max_loan_amount_usd init_engine = 500000" "min_loan_amount_usd init_engine = 100"
    by (simp_all add: init_engine_def)
  have low: "credit_score request_low_score = 300" "transaction_count request_low_score = 1"
    by (simp_all add: request_low_score_def)
  have thin: "credit_score request_thin_history = 500" "transaction_count request_thin_history = 1"
    by (simp_all add: request_thin_history_def)
  from make_decision_gate_order [OF config, of request_low_score 0]
    make_decision_gate_order [OF config, of request_thin_history 0]
  show ?thesis
    by (simp add: config low thin)
qed

text \<open>
  Claim C7, as amended. The proposed terms of a decision are absent if and only if
  the status is \<open>DENIED\<close> or the decision is the \<open>PENDING_REVIEW\<close> of the check on the
  transaction count (credit score not below the minimum, transaction count below the
  minimum), which is the one decision that carries a manual-review reason. A
  \<open>DENIED\<close> decision never has terms.
\<close>

theorem proposed_terms_absent_iff:
  "(proposed_terms (fst (make_decision r now e)) = None \<longleftrightarrow>
      ld_status (fst (make_decision r now e)) = DENIED \<or>
      (\<not> credit_score r < min_credit_score e \<and> transaction_count r < min_transactions e)) \<and>
   (proposed_terms (fst (make_decision r now e)) = None \<longleftrightarrow>
      ld_status (fst (make_decision r now e)) = DENIED \<or>
      manual_review_reason (fst (make_decision r now e)) \<noteq> None) \<and>
   (\<not> credit_score r < min_credit_score e \<and> transaction_count r < min_transactions e \<longrightarrow>
      ld_status (fst (make_decision r now e)) = PENDING_REVIEW)"
proof (cases "credit_score r < min_credit_score e")
  case True
  from make_decision_gate1 [OF True, of now] True show ?thesis by simp
next
  case g1: False
  show ?thesis
  proof (cases "transaction_count r < min_transactions e")
    case True
    from make_decision_gate2 [OF g1 True, of now] g1 True show ?thesis by simp
  next
    case g2: False
    show ?thesis
    proof (cases "max_loan_amount_usd e < borrow_amount_usd r")
      case True
      from make_decision_gate3 [OF g1 g2 True, of now] g2 show ?thesis by simp
    next
      case g3: False
      show ?thesis
      proof (cases "borrow_amount_usd r < min_loan_amount_usd e")
        case True
        from make_decision_gate4 [OF g1 g2 g3 True, of now] g2 show ?thesis by simp
      next
        case g4: False
        from make_decision_assessed [OF g1 g2 g3 g4, of now] g2 show ?thesis by simp
      qed
    qed
  qed
qed

lemma request_excellent_approved:
  "ld_status (fst (make_decision request_excellent 0 init_engine)) = APPROVED"
  by (simp add: make_decision_def init_engine_def request_excellent_def Let_def
      perform_risk_assessment_def assess_collateral_risk_def assess_credit_risk_def
      assess_liquidity_risk_def assess_behavioral_risk_def quantize_def round_half_even_def)

theorem proposed_terms_absent_iff_witness:
  "ld_status (fst (make_decision request_excellent 0 init_engine)) = APPROVED \<and>
   proposed_terms (fst (make_decision request_excellent 0 init_engine)) \<noteq> None \<and>
   \<not> credit_score request_thin_history < min_credit_score init_engine \<and>
   transaction_count request_thin_history < min_transactions init_engine \<and>
   ld_status (fst (make_decision request_thin_history 0 init_engine)) = PENDING_REVIEW \<and>
   proposed_terms (fst (make_decision request_thin_history 0 init_engine)) = None"
proof -
  have thin: "\<not> credit_score request_thin_history < min_credit_score init_engine"
    "transaction_count request_thin_history < min_transactions init_engine"
    by (simp_all add: request_thin_history_def init_engine_def)
  have excellent: "\<not> transaction_count request_excellent < min_transactions init_engine"
    by (simp add: request_excellent_def init_engine_def)
  from proposed_terms_absent_iff [of request_excellent 0 init_engine]
    proposed_terms_absent_iff [of request_thin_history 0 init_engine]
    request_excellent_approved thin excellent
  show ?thesis by auto
qed

text \<open>
  Claim C7, as stated, fails: the request with credit score 500 and one transaction
  gets a decision whose terms are absent and whose status is \<open>PENDING_REVIEW\<close>, not
  \<open>DENIED\<close>.
\<close>

theorem proposed_terms_absent_counterexample:
  "proposed_terms (fst (make_decision request_thin_history 0 init_engine)) = None \<and>
   ld_status (fst (make_decision request_thin_history 0 init_engine)) = PENDING_REVIEW \<and>
   ld_status (fst (make_decision request_thin_history 0 init_engine)) \<noteq> DENIED"
  by (simp add: make_decision_def init_engine_def request_thin_history_def Let_def)

section \<open>The credit scorer\<close>

lemma round_half_even_cases: "round_half_even x = \<lfloor>x\<rfloor> \<or> round_half_even x = \<lfloor>x\<rfloor> + 1"
  by (simp add: round_half_even_def Let_def)

lemma round_half_even_lower: "real_of_int lo \<le> x \<Longrightarrow> lo \<le> round_half_even x"
proof -
  assume "real_of_int lo \<le> x"
  then have "lo \<le> \<lfloor>x\<rfloor>" by (simp add: le_floor_iff)
  with round_half_even_cases [of x] show ?thesis by auto
qed

lemma round_half_even_upper: "x \<le> real_of_int hi \<Longrightarrow> round_half_even x \<le> hi"
proof (cases "x - real_of_int \<lfloor>x\<rfloor> < 1 / 2")
  case True
  assume "x \<le> real_of_int hi"
  then have "\<lfloor>x\<rfloor> \<le> hi" by (simp add: floor_le_iff)
  with True show ?thesis by (simp add: round_half_even_def Let_def)
next
  case False
  assume hi: "x \<le> real_of_int hi"
  from False have "real_of_int \<lfloor>x\<rfloor> < x" by simp
  with hi have "real_of_int \<lfloor>x\<rfloor> < real_of_int hi" by simp
  then have "\<lfloor>x\<rfloor> + 1 \<le> hi" by simp
  with round_half_even_cases [of x] show ?thesis by auto
qed

lemma quantize_0: "quantize 0 x = real_of_int (round_half_even x)"
  by (simp add: quantize_def)

lemma volume_score_range:
  "0 \<le> calculate_transaction_volume_score m \<and> calculate_transaction_volume_score m \<le> 20"
  by (simp add: calculate_transaction_volume_score_def Let_def)

lemma consistency_score_range:
  "0 \<le> calculate_payment_consistency_score m \<and> calculate_payment_consistency_score m \<le> 20"
  by (simp add: calculate_payment_consistency_score_def Let_def)

lemma balance_score_range:
  "0 \<le> calculate_balance_stability_score m \<and> calculate_balance_stability_score m \<le> 20"
  by (simp add: calculate_balance_stability_score_def Let_def)

lemma success_score_range:
  "0 \<le> calculate_transaction_success_rate_score m \<and>
   calculate_transaction_success_rate_score m \<le> 20"
  by (simp add: calculate_transaction_success_rate_score_def)

lemma inflow_score_returns:
  assumes "map_of (wallets a) w = Some d"
  shows "\<exists>i. calculate_inflow_reliability_score (a\<lparr>current_wallet := Some w\<rparr>) m = Inr i \<and>
           0 \<le> i \<and> i \<le> 20"
  using assms by (simp add: calculate_inflow_reliability_score_def Let_def)



lemma wallet_metrics_current_wallet:
  "calculate_wallet_metrics (a\<lparr>current_wallet := cw\<rparr>) w = calculate_wallet_metrics a w"
  by (simp add: calculate_wallet_metrics_def)

lemma account_age_returns:
  "map_of (wallets a) w = Some d \<Longrightarrow>
   \<exists>age. calculate_account_age_score (a\<lparr>current_wallet := cw\<rparr>) w now = Inr age"
  by (simp add: calculate_account_age_score_def Let_def)

lemma generate_credit_score_unknown:
  "map_of (wallets a) w = None \<Longrightarrow> generate_credit_score w now1 now2 a = (Inr None, a)"
  by (simp add: generate_credit_score_def)

lemma generate_credit_score_report:
  assumes "map_of (wallets a) w = Some d"
  shows "\<exists>rep i.
    generate_credit_score w now1 now2 a = (Inr (Some rep), a\<lparr>current_wallet := Some w\<rparr>) \<and>
    calculate_inflow_reliability_score (a\<lparr>current_wallet := Some w\<rparr>)
      (calculate_wallet_metrics a w) = Inr i \<and>
    metrics rep = calculate_wallet_metrics a w \<and>
    transaction_volume_score (credibility_factors rep) =
      calculate_transaction_volume_score (metrics rep) \<and>
    payment_consistency_score (credibility_factors rep) =
      calculate_payment_consistency_score (metrics rep) \<and>
    inflow_reliability_score (credibility_factors rep) = i \<and>
    balance_stability_score (credibility_factors rep) =
      calculate_balance_stability_score (metrics rep) \<and>
    transaction_success_rate_score (credibility_factors rep) =
      calculate_transaction_success_rate_score (metrics rep) \<and>
    csr_credit_score rep = quantize 0
      (300 + (transaction_volume_score (credibility_factors rep) +
              payment_consistency_score (credibility_factors rep) +
              inflow_reliability_score (credibility_factors rep) +
              balance_stability_score (credibility_factors rep) +
              transaction_success_rate_score (credibility_factors rep)) / 5 / 20 * 550) \<and>
    csr_credit_rating rep = rating_of (csr_credit_score rep) \<and>
    borrow_limit_usd rep = quantize 0 (1000 * (csr_credit_score rep / 850)) \<and>
    interest_rate_adjustment rep = rate_adjustment_of (csr_credit_rating rep)"
proof -
  from inflow_score_returns [OF assms, of "calculate_wallet_metrics a w"]
  obtain i where i: "calculate_inflow_reliability_score (a\<lparr>current_wallet := Some w\<rparr>)
      (calculate_wallet_metrics a w) = Inr i"
    by blast
  from account_age_returns [OF assms, of "Some w" now1]
  obtain age where age: "calculate_account_age_score (a\<lparr>current_wallet := Some w\<rparr>) w now1 = Inr age"
    by blast
  have same: "quantize 0 x = quantize 0 y" if "x = y" for x y
    using that by simp
  show ?thesis
    using assms i age
    by (auto simp add: generate_credit_score_def Let_def wallet_metrics_current_wallet
        intro!: same)
qed

lemma rating_of_iff:
  "(rating_of s = EXCELLENT \<longleftrightarrow> 750 \<le> s) \<and>
   (rating_of s = VERY_GOOD \<longleftrightarrow> 650 \<le> s \<and> s < 750) \<and>
   (rating_of s = GOOD \<longleftrightarrow> 550 \<le> s \<and> s < 650) \<and>
   (rating_of s = FAIR \<longleftrightarrow> 450 \<le> s \<and> s < 550) \<and>
   (rating_of s = POOR \<longleftrightarrow> s < 450)"
  by (auto simp add: rating_of_def)

lemma credit_score_bounds:
  assumes "0 \<le> v \<and> v \<le> 20" "0 \<le> c \<and> c \<le> 20" "0 \<le> i \<and> i \<le> 20"
    "0 \<le> b \<and> b \<le> 20" "0 \<le> t \<and> t \<le> (20::real)"
  shows "300 \<le> quantize 0 (300 + (v + c + i + b + t) / 5 / 20 * 550) \<and>
         quantize 0 (300 + (v + c + i + b + t) / 5 / 20 * 550) \<le> 850"
proof -
  let ?x = "300 + (v + c + i + b + t) / 5 / 20 * 550"
  from assms have "real_of_int 300 \<le> ?x" and "?x \<le> real_of_int 850"
    by simp_all
  then have "300 \<le> round_half_even ?x" and "round_half_even ?x \<le> 850"
    by (simp_all only: round_half_even_lower round_half_even_upper)
  then show ?thesis
    by (simp add: quantize_0)
qed

subsection \<open>The concrete wallets\<close>

lemma demo_wallets:
  "map_of (wallets demo_analyzer) ''Fair'' = Some fair_data"
  "map_of (wallets demo_analyzer) ''Steady'' = Some steady_data"
  "map_of (wallets demo_analyzer) ''Uneven'' = Some uneven_data"
  "map_of (wallets (demo_analyzer\<lparr>current_wallet := cw\<rparr>)) ''Fair'' = Some fair_data"
  "map_of (wallets (demo_analyzer\<lparr>current_wallet := cw\<rparr>)) ''Steady'' = Some steady_data"
  "map_of (wallets (demo_analyzer\<lparr>current_wallet := cw\<rparr>)) ''Uneven'' = Some uneven_data"
  by (simp_all add: demo_analyzer_def init_analyzer_def)

lemma fair_metrics:
  "calculate_wallet_metrics demo_analyzer ''Fair'' =
     \<lparr>wm_total_inflow = 23, wm_total_outflow = 20, wm_net_flow = 3, inflow_count = 2,
      outflow_count = 2, avg_inflow = 23 / 2, avg_outflow = 10, wm_transaction_count = 4,
      success_rate = 75, wm_current_balance = 10\<rparr>"
  by (simp add: calculate_wallet_metrics_def demo_wallets fair_data_def default_metrics_def Let_def)




lemma sqrt_289_4: "sqrt (289 / 4) = 17 / 2"
  by (rule real_sqrt_unique) (simp_all add: power2_eq_square)

lemma fair_inflow:
  "calculate_inflow_reliability_score (demo_analyzer\<lparr>current_wallet := Some ''Fair''\<rparr>)
     (calculate_wallet_metrics demo_analyzer ''Fair'') = Inr 12"
  by (simp add: calculate_inflow_reliability_score_def fair_metrics demo_wallets fair_data_def
      Let_def power2_eq_square sqrt_289_4)



lemma age_score_demo:
  "calculate_account_age_score (demo_analyzer\<lparr>current_wallet := cw\<rparr>) ''Fair'' 0 = Inr 2"
  "calculate_account_age_score (demo_analyzer\<lparr>current_wallet := cw\<rparr>) ''Steady'' 0 = Inr 2"
  "calculate_account_age_score (demo_analyzer\<lparr>current_wallet := cw\<rparr>) ''Uneven'' 0 = Inr 2"
  by (simp_all add: calculate_account_age_score_def demo_wallets days_of_def fair_data_def
      steady_data_def uneven_data_def)

lemma fair_scores:
  "calculate_transaction_volume_score (calculate_wallet_metrics demo_analyzer ''Fair'') = 2"
  "calculate_payment_consistency_score (calculate_wallet_metrics demo_analyzer ''Fair'') = 15"
  "calculate_balance_stability_score (calculate_wallet_metrics demo_analyzer ''Fair'') = 8"
  "calculate_transaction_success_rate_score (calculate_wallet_metrics demo_analyzer ''Fair'') = 2"
  by (simp_all add: fair_metrics calculate_transaction_volume_score_def
      calculate_payment_consistency_score_def calculate_balance_stability_score_def
      calculate_transaction_success_rate_score_def)



lemmas report_defs =
  generate_credit_score_def the_report_def demo_wallets wallet_metrics_current_wallet
  age_score_demo Let_def quantize_def round_half_even_def rating_of_def

lemma fair_report:
  "snd (generate_credit_score ''Fair'' 0 0 demo_analyzer) =
     demo_analyzer\<lparr>current_wallet := Some ''Fair''\<rparr>"
  "map_option csr_credit_score (the_report (generate_credit_score ''Fair'' 0 0 demo_analyzer)) =
     Some 514"
  "map_option csr_credit_rating (the_report (generate_credit_score ''Fair'' 0 0 demo_analyzer)) =
     Some FAIR"
  "map_option borrow_limit_usd (the_report (generate_credit_score ''Fair'' 0 0 demo_analyzer)) =
     Some 605"
  by (simp_all add: report_defs fair_inflow fair_scores)



section \<open>The claims on the credit scorer\<close>




text \<open>
  Claim C9, as amended. For every registered wallet \<open>generate_credit_score\<close> returns a
  report. Its five sub-scores lie in [0, 20]; its credit score is
  300 + (average of the five) / 20 * 550 rounded to an integer (half to even) and lies
  in [300, 850]; the rating is Excellent from 750, VeryGood from 650, Good from 550,
  Fair from 450 and Poor below; and the borrow limit is 1000 * (score / 850) rounded
  to an integer (half to even).
\<close>

theorem generate_credit_score_formula:
  assumes "map_of (wallets a) w = Some d"
  shows "\<exists>rep v c i b t.
    fst (generate_credit_score w now1 now2 a) = Inr (Some rep) \<and>
    v = transaction_volume_score (credibility_factors rep) \<and>
    c = payment_consistency_score (credibility_factors rep) \<and>
    i = inflow_reliability_score (credibility_factors rep) \<and>
    b = balance_stability_score (credibility_factors rep) \<and>
    t = transaction_success_rate_score (credibility_factors rep) \<and>
    0 \<le> v \<and> v \<le> 20 \<and> 0 \<le> c \<and> c \<le> 20 \<and> 0 \<le> i \<and> i \<le> 20 \<and>
    0 \<le> b \<and> b \<le> 20 \<and> 0 \<le> t \<and> t \<le> 20 \<and>
    csr_credit_score rep =
      real_of_int (round_half_even (300 + (v + c + i + b + t) / 5 / 20 * 550)) \<and>
    300 \<le> csr_credit_score rep \<and> csr_credit_score rep \<le> 850 \<and>
    (csr_credit_rating rep = EXCELLENT \<longleftrightarrow> 750 \<le> csr_credit_score rep) \<and>
    (csr_credit_rating rep = VERY_GOOD \<longleftrightarrow>
       650 \<le> csr_credit_score rep \<and> csr_credit_score rep < 750) \<and>
    (csr_credit_rating rep = GOOD \<longleftrightarrow>
       550 \<le> csr_credit_score rep \<and> csr_credit_score rep < 650) \<and>
    (csr_credit_rating rep = FAIR \<longleftrightarrow>
       450 \<le> csr_credit_score rep \<and> csr_credit_score rep < 550) \<and>
    (csr_credit_rating rep = POOR \<longleftrightarrow> csr_credit_score rep < 450) \<and>
    borrow_limit_usd rep =
      real_of_int (round_half_even (1000 * (csr_credit_score rep / 850)))"
proof -
  from generate_credit_score_report [OF assms, of now1 now2]
  obtain rep i where rep:
    "generate_credit_score w now1 now2 a = (Inr (Some rep), a\<lparr>current_wallet := Some w\<rparr>)"
    "calculate_inflow_reliability_score (a\<lparr>current_wallet := Some w\<rparr>)
       (calculate_wallet_metrics a w) = Inr i"
    "transaction_volume_score (credibility_factors rep) =
       calculate_transaction_volume_score (metrics rep)"
    "payment_consistency_score (credibility_factors rep) =
       calculate_payment_consistency_score (metrics rep)"
    "inflow_reliability_score (credibility_factors rep) = i"
    "balance_stability_score (credibility_factors rep) =
       calculate_balance_stability_score (metrics rep)"
    "transaction_success_rate_score (credibility_factors rep) =
       calculate_transaction_success_rate_score (metrics rep)"
    "csr_credit_score rep = quantize 0
      (300 + (transaction_volume_score (credibility_factors rep) +
              payment_consistency_score (credibility_factors rep) +
              inflow_reliability_score (credibility_factors rep) +
              balance_stability_score (credibility_factors rep) +
              transaction_success_rate_score (credibility_factors rep)) / 5 / 20 * 550)"
    "csr_credit_rating rep = rating_of (csr_credit_score rep)"
    "borrow_limit_usd rep = quantize 0 (1000 * (csr_credit_score rep / 850))"
    by blast
  from inflow_score_returns [OF assms, of "calculate_wallet_metrics a w"] rep(2)
  have i: "0 \<le> i \<and> i \<le> 20" by simp
  let ?v = "transaction_volume_score (credibility_factors rep)"
  let ?c = "payment_consistency_score (credibility_factors rep)"
  let ?i = "inflow_reliability_score (credibility_factors rep)"
  let ?b = "balance_stability_score (credibility_factors rep)"
  let ?t = "transaction_success_rate_score (credibility_factors rep)"
  have v: "0 \<le> ?v \<and> ?v \<le> 20" using volume_score_range [of "metrics rep"] rep(3) by simp
  have c: "0 \<le> ?c \<and> ?c \<le> 20" using consistency_score_range [of "metrics rep"] rep(4) by simp
  have i': "0 \<le> ?i \<and> ?i \<le> 20" using i rep(5) by simp
  have b: "0 \<le> ?b \<and> ?b \<le> 20" using balance_score_range [of "metrics rep"] rep(6) by simp
  have t: "0 \<le> ?t \<and> ?t \<le> 20" using success_score_range [of "metrics rep"] rep(7) by simp
  have bounds: "300 \<le> csr_credit_score rep \<and> csr_credit_score rep \<le> 850"
    using credit_score_bounds [OF v c i' b t] rep(8) by simp
  have score: "csr_credit_score rep =
      real_of_int (round_half_even (300 + (?v + ?c + ?i + ?b + ?t) / 5 / 20 * 550))"
    using rep(8) by (simp only: quantize_0)
  have limit: "borrow_limit_usd rep =
      real_of_int (round_half_even (1000 * (csr_credit_score rep / 850)))"
    using rep(10) by (simp only: quantize_0)
  have rating: "(csr_credit_rating rep = EXCELLENT \<longleftrightarrow> 750 \<le> csr_credit_score rep) \<and>
    (csr_credit_rating rep = VERY_GOOD \<longleftrightarrow>
       650 \<le> csr_credit_score rep \<and> csr_credit_score rep < 750) \<and>
    (csr_credit_rating rep = GOOD \<longleftrightarrow>
       550 \<le> csr_credit_score rep \<and> csr_credit_score rep < 650) \<and>
    (csr_credit_rating rep = FAIR \<longleftrightarrow>
       450 \<le> csr_credit_score rep \<and> csr_credit_score rep < 550) \<and>
    (csr_credit_rating rep = POOR \<longleftrightarrow> csr_credit_score rep < 450)"
    using rating_of_iff [of "csr_credit_score rep"] rep(9) by simp
  have ret: "fst (generate_credit_score w now1 now2 a) = Inr (Some rep)"
    using rep(1) by simp
  show ?thesis
    using ret v c i' b t score bounds rating limit
    by (intro exI [of _ rep] exI [of _ ?v] exI [of _ ?c] exI [of _ ?i] exI [of _ ?b]
        exI [of _ ?t] conjI) (simp_all only: simp_thms)
qed

theorem generate_credit_score_formula_witness:
  "map_of (wallets demo_analyzer) ''Fair'' = Some fair_data \<and>
   (\<exists>rep. fst (generate_credit_score ''Fair'' 0 0 demo_analyzer) = Inr (Some rep) \<and>
      csr_credit_score rep = 514 \<and> csr_credit_rating rep = FAIR \<and> borrow_limit_usd rep = 605 \<and>
      300 \<le> csr_credit_score rep \<and> csr_credit_score rep \<le> 850)"
proof -
  from generate_credit_score_formula [OF demo_wallets(1), of 0 0]
  obtain rep where rep: "fst (generate_credit_score ''Fair'' 0 0 demo_analyzer) = Inr (Some rep)"
    "300 \<le> csr_credit_score rep" "csr_credit_score rep \<le> 850"
    by blast
  from fair_report(2-4) rep(1)
  have "csr_credit_score rep = 514" "csr_credit_rating rep = FAIR" "borrow_limit_usd rep = 605"
    by (simp_all add: the_report_def)
  with rep show ?thesis
    by (simp add: demo_wallets)
qed

text \<open>
  Claim C9, as stated, fails on the borrow limit: the wallet \<open>''Fair''\<close> has the credit
  score 514 and the borrow limit 605, which is not 1000 * (514 / 850).
\<close>

theorem borrow_limit_counterexample:
  "map_option csr_credit_score (the_report (generate_credit_score ''Fair'' 0 0 demo_analyzer)) =
     Some 514 \<and>
   map_option borrow_limit_usd (the_report (generate_credit_score ''Fair'' 0 0 demo_analyzer)) =
     Some 605 \<and>
   (605 :: real) \<noteq> 1000 * (514 / 850)"
  by (simp add: fair_report)

section \<open>The concrete inputs are reached through the operations\<close>

lemma demo_analyzer_built:
  "demo_analyzer =
     (snd (add_transaction ''Uneven'' ''b3'' 0 2 ''outflow'' ''Peer'' [] True
     (snd (add_transaction ''Uneven'' ''b2'' 0 9 ''inflow'' ''Peer'' [] True
     (snd (add_transaction ''Uneven'' ''b1'' 0 1 ''inflow'' ''Peer'' [] True
     (add_wallet ''Uneven'' 50 0
     (snd (add_transaction ''Steady'' ''a3'' 0 2 ''outflow'' ''Peer'' [] True
     (snd (add_transaction ''Steady'' ''a2'' 0 5 ''inflow'' ''Peer'' [] True
     (snd (add_transaction ''Steady'' ''a1'' 0 5 ''inflow'' ''Peer'' [] True
     (add_wallet ''Steady'' 50 0
     (snd (add_transaction ''Fair'' ''tx4'' (timedelta_days 12) 3 ''inflow'' ''Refund''
        ''Partial refund'' False
     (snd (add_transaction ''Fair'' ''tx3'' (timedelta_days 10) 5 ''outflow'' ''Fee''
        ''Gas fee'' True
     (snd (add_transaction ''Fair'' ''tx2'' (timedelta_days 5) 15 ''outflow'' ''Buyer1''
        ''Large withdrawal'' True
     (snd (add_transaction ''Fair'' ''tx1'' 0 20 ''inflow'' ''Source1'' ''Large deposit'' True
     (add_wallet ''Fair'' 10 0
     init_analyzer)))))))))))))))))))))))"
  by (simp add: demo_analyzer_def add_wallet_def add_transaction_def parse_transaction_type_def
      init_analyzer_def fair_data_def steady_data_def uneven_data_def flow_def Let_def)

lemma complete_loan_setup_raises:
  "complete_loan_setup ''LOAN_1'' 100000 (1 / 10) 0 0 now demo_created =
     (Inl AttributeError, demo_locked\<lparr>transaction_counter := transaction_counter demo_locked + 1\<rparr>)"
proof -
  have deposit: "deposit_collateral ''LOAN_1'' 100000 (1 / 10) 0 0 demo_created = (Some 0, demo_locked)"
    using deposit_collateral_any_status(1) [OF demo_created_loan, of 100000 "1 / 10" 0 0]
    by (simp add: demo_locked_def demo_loan_pending_def demo_created_rest prod_eq_iff)
  have healthy: "verify_collateral_health ''LOAN_1'' (1 / 10) demo_locked = Inr (True, 2)"
    by (simp add: verify_collateral_health_def demo_locked_loan demo_loan_locked_def
        demo_loan_pending_def Let_def)
  have raise: "disburse_funds ''LOAN_1'' now demo_locked =
      (Inl AttributeError, demo_locked\<lparr>transaction_counter := transaction_counter demo_locked + 1\<rparr>)"
    by (rule disburse_funds_attribute_error [OF demo_locked_loan])
      (simp_all add: demo_loan_locked_fields demo_locked_rest)
  show ?thesis
    by (simp add: complete_loan_setup_def deposit healthy raise)
qed

end
